theory Spec2Isabelle
  imports Main "HOL-Library.AList" "HOL-Library.Multiset"
begin

section \<open>The JavaScript values the type chart computes with\<close>

text \<open>
  The multipliers of \<^verbatim>\<open>client/src/lib/type-chart\<close> are JavaScript numbers, that is
  IEEE-754 binary64 values. Every number the program computes starts at \<^verbatim>\<open>1\<close> and is
  multiplied by \<^verbatim>\<open>2\<close>, \<^verbatim>\<open>0.5\<close> or \<^verbatim>\<open>0\<close>, so the values it can reach are \<^verbatim>\<open>+0\<close>, the
  powers of two \<open>2 ^ k\<close> with \<open>-1074 \<le> k \<le> 1023\<close> (all exactly representable),
  \<^verbatim>\<open>+Infinity\<close> and \<^verbatim>\<open>NaN\<close>. The datatype has exactly these values, and
  \<open>js_times\<close> is binary64 multiplication on them: a product beyond \<open>2 ^ 1023\<close>
  overflows to \<^verbatim>\<open>Infinity\<close>, a product below \<open>2 ^ -1074\<close> rounds to \<^verbatim>\<open>0\<close> (the tie
  \<open>2 ^ -1075\<close> goes to the even neighbour \<^verbatim>\<open>0\<close>), \<^verbatim>\<open>Infinity * 0\<close> is \<^verbatim>\<open>NaN\<close>.
\<close>

datatype number = Zero | Pow2 int | Infinity | NaN

fun js_times :: "number \<Rightarrow> number \<Rightarrow> number" where
  "js_times NaN y = NaN"
| "js_times x NaN = NaN"
| "js_times Infinity Zero = NaN"
| "js_times Zero Infinity = NaN"
| "js_times Infinity y = Infinity"
| "js_times x Infinity = Infinity"
| "js_times Zero y = Zero"
| "js_times x Zero = Zero"
| "js_times (Pow2 a) (Pow2 b) =
     (if 1023 < a + b then Infinity
      else if a + b < - 1074 then Zero
      else Pow2 (a + b))"

text \<open>The comparison \<^verbatim>\<open>x > y\<close>; every comparison with \<^verbatim>\<open>NaN\<close> is false.\<close>

fun js_gt :: "number \<Rightarrow> number \<Rightarrow> bool" where
  "js_gt NaN y = False"
| "js_gt x NaN = False"
| "js_gt Infinity Infinity = False"
| "js_gt Infinity y = True"
| "js_gt x Infinity = False"
| "js_gt Zero y = False"
| "js_gt (Pow2 a) Zero = True"
| "js_gt (Pow2 a) (Pow2 b) = (b < a)"

text \<open>The literals \<^verbatim>\<open>1\<close>, \<^verbatim>\<open>2\<close> and \<^verbatim>\<open>0.5\<close> of the source.\<close>

abbreviation one_n :: number where "one_n \<equiv> Pow2 0"
abbreviation two_n :: number where "two_n \<equiv> Pow2 1"
abbreviation half_n :: number where "half_n \<equiv> Pow2 (- 1)"

text \<open>
  A finite, non-negative number: what the specification calls a multiplier.
\<close>

fun is_multiplier :: "number \<Rightarrow> bool" where
  "is_multiplier Zero = True"
| "is_multiplier (Pow2 k) = (- 1074 \<le> k \<and> k \<le> 1023)"
| "is_multiplier Infinity = False"
| "is_multiplier NaN = False"

text \<open>
  Strings. A \<open>string\<close> is a list of 8-bit characters, read here as a JavaScript string
  whose code units are all at most \<^verbatim>\<open>U+00FF\<close>. On such strings
  \<^verbatim>\<open>String.prototype.toLowerCase\<close> works code unit by code unit: it maps \<^verbatim>\<open>A\<close> to \<^verbatim>\<open>Z\<close>
  and the upper-case letters \<^verbatim>\<open>U+00C0\<close> to \<^verbatim>\<open>U+00DE\<close> (all but the sign \<^verbatim>\<open>U+00D7\<close>) to the
  code unit 32 above, and leaves every other code unit as it is.

  Strings with a code unit above \<^verbatim>\<open>U+00FF\<close> are outside this model. Among them are names
  that the code lower-cases to a key of the chart: \<^verbatim>\<open>U+212A\<close> (the Kelvin sign)
  lower-cases to \<^verbatim>\<open>k\<close>, so the code finds the entry \<^verbatim>\<open>dark\<close> for \<^verbatim>\<open>dar\<close> followed by
  \<^verbatim>\<open>U+212A\<close>. The theorems about arbitrary names below hold for every function in
  the place of \<open>toLowerCase\<close> that never yields an upper-case letter \<^verbatim>\<open>A\<close> to \<^verbatim>\<open>Z\<close>; the
  definition is evaluated on ASCII names only.
\<close>

definition upper_letters :: string where
  "upper_letters =
     ''ABCDEFGHIJKLMNOPQRSTUVWXYZ'' @
     [CHR 0xC0, CHR 0xC1, CHR 0xC2, CHR 0xC3, CHR 0xC4, CHR 0xC5, CHR 0xC6, CHR 0xC7,
      CHR 0xC8, CHR 0xC9, CHR 0xCA, CHR 0xCB, CHR 0xCC, CHR 0xCD, CHR 0xCE, CHR 0xCF,
      CHR 0xD0, CHR 0xD1, CHR 0xD2, CHR 0xD3, CHR 0xD4, CHR 0xD5, CHR 0xD6,
      CHR 0xD8, CHR 0xD9, CHR 0xDA, CHR 0xDB, CHR 0xDC, CHR 0xDD, CHR 0xDE]"

definition lower_letters :: string where
  "lower_letters =
     ''abcdefghijklmnopqrstuvwxyz'' @
     [CHR 0xE0, CHR 0xE1, CHR 0xE2, CHR 0xE3, CHR 0xE4, CHR 0xE5, CHR 0xE6, CHR 0xE7,
      CHR 0xE8, CHR 0xE9, CHR 0xEA, CHR 0xEB, CHR 0xEC, CHR 0xED, CHR 0xEE, CHR 0xEF,
      CHR 0xF0, CHR 0xF1, CHR 0xF2, CHR 0xF3, CHR 0xF4, CHR 0xF5, CHR 0xF6,
      CHR 0xF8, CHR 0xF9, CHR 0xFA, CHR 0xFB, CHR 0xFC, CHR 0xFD, CHR 0xFE]"

definition lower_char :: "char \<Rightarrow> char" where
  "lower_char c =
     (case map_of (zip upper_letters lower_letters) c of
        Some l \<Rightarrow> l
      | None \<Rightarrow> c)"

definition toLowerCase :: "string \<Rightarrow> string" where
  "toLowerCase s = map lower_char s"

text \<open>
  The exceptions of the program: the \<^verbatim>\<open>TypeError\<close> and \<^verbatim>\<open>SyntaxError\<close> of the
  runtime, and \<^verbatim>\<open>new Error(message)\<close>.
\<close>

datatype error = TypeError | SyntaxError | Error string

section \<open>The type chart\<close>

record TypeEffectiveness =
  double :: "string list"
  half :: "string list"
  zero :: "string list"

text \<open>
  \<^verbatim>\<open>TYPE_CHART\<close>, an object literal: its own properties in insertion order, which is
  the order of \<^verbatim>\<open>Object.keys\<close> and \<^verbatim>\<open>Object.entries\<close>.
\<close>

definition TYPE_CHART :: "(string \<times> TypeEffectiveness) list" where
  "TYPE_CHART =
   [(''normal'', \<lparr>double = [''fighting''], half = [], zero = [''ghost'']\<rparr>),
    (''fire'', \<lparr>double = [''water'', ''ground'', ''rock''],
       half = [''fire'', ''grass'', ''ice'', ''bug'', ''steel'', ''fairy''], zero = []\<rparr>),
    (''water'', \<lparr>double = [''electric'', ''grass''],
       half = [''fire'', ''water'', ''ice'', ''steel''], zero = []\<rparr>),
    (''electric'', \<lparr>double = [''ground''],
       half = [''electric'', ''flying'', ''steel''], zero = []\<rparr>),
    (''grass'', \<lparr>double = [''fire'', ''ice'', ''poison'', ''flying'', ''bug''],
       half = [''water'', ''electric'', ''grass'', ''ground''], zero = []\<rparr>),
    (''ice'', \<lparr>double = [''fire'', ''fighting'', ''rock'', ''steel''],
       half = [''ice''], zero = []\<rparr>),
    (''fighting'', \<lparr>double = [''flying'', ''psychic'', ''fairy''],
       half = [''bug'', ''rock'', ''dark''], zero = []\<rparr>),
    (''poison'', \<lparr>double = [''ground'', ''psychic''],
       half = [''grass'', ''fighting'', ''poison'', ''bug'', ''fairy''], zero = []\<rparr>),
    (''ground'', \<lparr>double = [''water'', ''grass'', ''ice''],
       half = [''poison'', ''rock''], zero = [''electric'']\<rparr>),
    (''flying'', \<lparr>double = [''electric'', ''ice'', ''rock''],
       half = [''grass'', ''fighting'', ''bug''], zero = [''ground'']\<rparr>),
    (''psychic'', \<lparr>double = [''bug'', ''ghost'', ''dark''],
       half = [''fighting'', ''psychic''], zero = []\<rparr>),
    (''bug'', \<lparr>double = [''fire'', ''flying'', ''rock''],
       half = [''grass'', ''fighting'', ''ground''], zero = []\<rparr>),
    (''rock'', \<lparr>double = [''water'', ''grass'', ''fighting'', ''ground'', ''steel''],
       half = [''normal'', ''fire'', ''poison'', ''flying''], zero = []\<rparr>),
    (''ghost'', \<lparr>double = [''ghost'', ''dark''],
       half = [''poison'', ''bug''], zero = [''normal'', ''fighting'']\<rparr>),
    (''dragon'', \<lparr>double = [''ice'', ''dragon'', ''fairy''],
       half = [''fire'', ''water'', ''electric'', ''grass''], zero = []\<rparr>),
    (''steel'', \<lparr>double = [''fire'', ''fighting'', ''ground''],
       half = [''normal'', ''grass'', ''ice'', ''flying'', ''psychic'', ''bug'', ''rock'',
               ''dragon'', ''steel'', ''fairy''],
       zero = [''poison'']\<rparr>),
    (''dark'', \<lparr>double = [''fighting'', ''bug'', ''fairy''],
       half = [''ghost'', ''dark''], zero = [''psychic'']\<rparr>),
    (''fairy'', \<lparr>double = [''poison'', ''steel''],
       half = [''fighting'', ''bug'', ''dark''], zero = [''dragon'']\<rparr>)]"

text \<open>
  \<^verbatim>\<open>TYPE_CHART[k]\<close> is a property read on a plain object, so a key that is not an own
  property is looked up on \<^verbatim>\<open>Object.prototype\<close>. The names below are the properties
  of \<^verbatim>\<open>Object.prototype\<close>; each of them is a function, or (\<^verbatim>\<open>__proto__\<close>) the
  prototype object itself: a truthy value that has no property \<^verbatim>\<open>double\<close>.
\<close>

definition Object_prototype :: "string list" where
  "Object_prototype =
   [''constructor'', ''__defineGetter__'', ''__defineSetter__'', ''hasOwnProperty'',
    ''__lookupGetter__'', ''__lookupSetter__'', ''isPrototypeOf'', ''propertyIsEnumerable'',
    ''toString'', ''valueOf'', ''__proto__'', ''toLocaleString'']"

datatype property = Undefined | Entry TypeEffectiveness | Inherited

definition TYPE_CHART_get :: "string \<Rightarrow> property" where
  "TYPE_CHART_get k =
     (case map_of TYPE_CHART k of
        Some data \<Rightarrow> Entry data
      | None \<Rightarrow> if k \<in> set Object_prototype then Inherited else Undefined)"

section \<open>calculateDefensiveMatchups\<close>

text \<open>
  The result object \<^verbatim>\<open>matchups\<close> is an association list in insertion order.
  \<^verbatim>\<open>matchups[t] = v\<close> overwrites in place or appends a new key, which is
  \<open>AList.update\<close>. \<^verbatim>\<open>matchups[t] *= f\<close> reads the key first; a missing key reads as
  \<^verbatim>\<open>undefined\<close>, whose product with any number is \<^verbatim>\<open>NaN\<close>.
\<close>

type_synonym matchups = "(string \<times> number) list"

definition allTypes :: "string list" where
  "allTypes = map fst TYPE_CHART"

definition times_assign :: "number \<Rightarrow> string \<Rightarrow> matchups \<Rightarrow> matchups" where
  "times_assign f t m =
     AList.update t (js_times (case map_of m t of None \<Rightarrow> NaN | Some v \<Rightarrow> v) f) m"

text \<open>
  The body of \<^verbatim>\<open>types.forEach\<close> for an entry that was found: the three inner
  \<^verbatim>\<open>forEach\<close> loops, in the order of the source.
\<close>

definition apply_data :: "TypeEffectiveness \<Rightarrow> matchups \<Rightarrow> matchups" where
  "apply_data data m =
     fold (times_assign Zero) (zero data)
       (fold (times_assign half_n) (half data)
          (fold (times_assign two_n) (double data) m))"

text \<open>
  \<^verbatim>\<open>types.forEach\<close>. \<^verbatim>\<open>if (!data) return\<close> skips a key that reads as \<^verbatim>\<open>undefined\<close>.
  An inherited property is truthy and passes the guard; its \<^verbatim>\<open>double\<close> is
  \<^verbatim>\<open>undefined\<close> and \<^verbatim>\<open>data.double.forEach\<close> throws a \<^verbatim>\<open>TypeError\<close>, which leaves the loop
  and the function.
\<close>

fun forEach_types :: "string list \<Rightarrow> matchups \<Rightarrow> error + matchups" where
  "forEach_types [] m = Inr m"
| "forEach_types (defendingType # rest) m =
     (case TYPE_CHART_get (toLowerCase defendingType) of
        Undefined \<Rightarrow> forEach_types rest m
      | Inherited \<Rightarrow> Inl TypeError
      | Entry data \<Rightarrow> forEach_types rest (apply_data data m))"

definition calculateDefensiveMatchups :: "string list \<Rightarrow> error + matchups" where
  "calculateDefensiveMatchups types =
     forEach_types types (fold (\<lambda>t m. AList.update t one_n m) allTypes [])"

section \<open>getOffensiveStrengths\<close>

text \<open>
  \<^verbatim>\<open>strengths\<close> is a \<^verbatim>\<open>Set\<close>: \<^verbatim>\<open>add\<close> keeps the first insertion of a value, and
  \<^verbatim>\<open>Array.from\<close> lists the values in insertion order.
\<close>

definition set_add :: "string \<Rightarrow> string list \<Rightarrow> string list" where
  "set_add x strengths = (if x \<in> set strengths then strengths else strengths @ [x])"

definition scan_chart :: "string \<Rightarrow> string list \<Rightarrow> string list" where
  "scan_chart atkType strengths =
     fold (\<lambda>(defType, data) acc.
             if toLowerCase atkType \<in> set (double data) then set_add defType acc else acc)
       TYPE_CHART strengths"

definition getOffensiveStrengths :: "string list \<Rightarrow> string list" where
  "getOffensiveStrengths attackerTypes = fold scan_chart attackerTypes []"

section \<open>The comparison of the current Pokemon with the team\<close>

text \<open>
  The fields of \<^verbatim>\<open>Pokemon\<close> that the comparison and the team operations read.
  \<open>types\<close> holds the names \<^verbatim>\<open>t.type.name\<close> of the entries of \<^verbatim>\<open>types\<close>, in order,
  which is all the page reads of them.
\<close>

record Pokemon =
  idnum :: int
  name :: string
  types :: "string list"

definition currentTypes :: "Pokemon option \<Rightarrow> string list" where
  "currentTypes pokemon = (case pokemon of None \<Rightarrow> [] | Some p \<Rightarrow> types p)"

text \<open>
  \<^verbatim>\<open>Object.entries(m).filter(([_, multiplier]) => multiplier > 1).map(([type]) => type)\<close>
\<close>

definition weaknesses :: "matchups \<Rightarrow> string list" where
  "weaknesses m = map fst (filter (\<lambda>(t, multiplier). js_gt multiplier one_n) m)"

text \<open>
  \<^verbatim>\<open>memberMatchups[atkType] > 1\<close>: a key that is absent reads as a value whose
  comparison with \<^verbatim>\<open>1\<close> is false.
\<close>

definition weak_to :: "matchups \<Rightarrow> string \<Rightarrow> bool" where
  "weak_to memberMatchups atkType =
     (case map_of memberMatchups atkType of None \<Rightarrow> False | Some v \<Rightarrow> js_gt v one_n)"

text \<open>
  \<^verbatim>\<open>team.filter\<close> with the callback of \<^verbatim>\<open>teamDisadvantage\<close>, which calls
  \<^verbatim>\<open>calculateDefensiveMatchups\<close> for every member and so can throw.
\<close>

fun filter_disadvantage :: "string list \<Rightarrow> Pokemon list \<Rightarrow> error + Pokemon list" where
  "filter_disadvantage strengths [] = Inr []"
| "filter_disadvantage strengths (member # rest) =
     (case calculateDefensiveMatchups (types member) of
        Inl e \<Rightarrow> Inl e
      | Inr memberMatchups \<Rightarrow>
          (case filter_disadvantage strengths rest of
             Inl e \<Rightarrow> Inl e
           | Inr kept \<Rightarrow>
               Inr (if list_ex (weak_to memberMatchups) strengths
                    then member # kept else kept)))"

text \<open>
  The comparison logic of the component body, in the order of the source. The
  result is the pair \<^verbatim>\<open>(teamAdvantage, teamDisadvantage)\<close>; an exception thrown on
  the way ends the render, and neither list is produced.
\<close>

definition comparison :: "Pokemon option \<Rightarrow> Pokemon list \<Rightarrow> error + Pokemon list \<times> Pokemon list" where
  "comparison pokemon team =
     (case calculateDefensiveMatchups (currentTypes pokemon) of
        Inl e \<Rightarrow> Inl e
      | Inr currentPokemonMatchups \<Rightarrow>
          (let currentPokemonWeaknesses = weaknesses currentPokemonMatchups;
               teamAdvantage =
                 filter (\<lambda>member. list_ex (\<lambda>t. t \<in> set currentPokemonWeaknesses) (types member))
                   team;
               currentPokemonStrengths = getOffensiveStrengths (currentTypes pokemon)
           in case filter_disadvantage currentPokemonStrengths team of
                Inl e \<Rightarrow> Inl e
              | Inr teamDisadvantage \<Rightarrow> Inr (teamAdvantage, teamDisadvantage)))"

section \<open>The team\<close>

text \<open>
  The state of the page that the team operations touch: \<^verbatim>\<open>team\<close> and the toasts
  shown so far (their titles).
\<close>

record home_state =
  team :: "Pokemon list"
  toasts :: "string list"

definition toast :: "string \<Rightarrow> home_state \<Rightarrow> home_state" where
  "toast title s = s\<lparr>toasts := toasts s @ [title]\<rparr>"

definition addToTeam :: "Pokemon option \<Rightarrow> home_state \<Rightarrow> home_state" where
  "addToTeam pokemon s =
     (case pokemon of
        None \<Rightarrow> s
      | Some p \<Rightarrow>
          if 6 \<le> length (team s) then toast ''BOX FULL!'' s
          else if find (\<lambda>q. idnum q = idnum p) (team s) \<noteq> None then toast ''ALREADY CAUGHT!'' s
          else toast ''GOTCHA!'' (s\<lparr>team := team s @ [p]\<rparr>))"

definition removeFromTeam :: "int \<Rightarrow> home_state \<Rightarrow> home_state" where
  "removeFromTeam i s = s\<lparr>team := filter (\<lambda>p. idnum p \<noteq> i) (team s)\<rparr>"

text \<open>The handler of the CLEAR button, \<^verbatim>\<open>() => setTeam([])\<close>.\<close>

definition clearTeam :: "home_state \<Rightarrow> home_state" where
  "clearTeam s = s\<lparr>team := []\<rparr>"

text \<open>
  The page starts with an empty team; every later team is the result of a sequence
  of clicks.
\<close>

datatype click = Add "Pokemon option" | Remove int | Clear

fun click_step :: "click \<Rightarrow> home_state \<Rightarrow> home_state" where
  "click_step (Add pokemon) s = addToTeam pokemon s"
| "click_step (Remove i) s = removeFromTeam i s"
| "click_step Clear s = clearTeam s"

definition initial :: home_state where
  "initial = \<lparr>team = [], toasts = []\<rparr>"

definition after_clicks :: "click list \<Rightarrow> home_state" where
  "after_clicks cs = fold click_step cs initial"

section \<open>getPokemon\<close>

text \<open>
  \<^verbatim>\<open>fetch\<close> is a parameter: a function from the URL to what the awaited promise
  settles to, \<open>None\<close> when it rejects (a \<^verbatim>\<open>TypeError\<close>, by the Fetch standard) and
  the response otherwise. Of the response the function reads \<^verbatim>\<open>ok\<close> and
  \<^verbatim>\<open>json()\<close>, whose promise rejects with a \<^verbatim>\<open>SyntaxError\<close> (\<open>None\<close>) or resolves to
  the parsed body. The result carries the URLs that were requested, in order.
\<close>

text \<open>
  The query is a string or a number. A number reaches \<^verbatim>\<open>getPokemon\<close> in two places
  only: \<^verbatim>\<open>query || 1\<close> asks whether it is falsy, and the template literal takes its
  string (the conversion \<^verbatim>\<open>ToString\<close> of the language). Two numbers with the same
  string are \<^verbatim>\<open>+0\<close> and \<^verbatim>\<open>-0\<close>, both falsy, or equal. So a numeric query is given by its
  string: \<open>Num ''25''\<close> is \<^verbatim>\<open>25\<close>, \<open>Num ''1.5''\<close> is \<^verbatim>\<open>1.5\<close>, \<open>Num ''1e+21''\<close> is
  \<^verbatim>\<open>1e21\<close>, and the literal \<^verbatim>\<open>1\<close> of the source is \<open>Num ''1''\<close>. The falsy numbers are
  \<^verbatim>\<open>+0\<close> and \<^verbatim>\<open>-0\<close>, whose string is \<^verbatim>\<open>0\<close>, and \<^verbatim>\<open>NaN\<close>.
\<close>

datatype query = Str string | Num string

record response =
  ok :: bool
  json :: "Pokemon option"

text \<open>\<^verbatim>\<open>query || 1\<close>: the empty string, zero and \<^verbatim>\<open>NaN\<close> are falsy.\<close>

definition or_one :: "query \<Rightarrow> query" where
  "or_one q = (if q = Str [] \<or> q = Num ''0'' \<or> q = Num ''NaN'' then Num ''1'' else q)"

text \<open>
  The template literal: \<^verbatim>\<open>typeof q === 'string' ? q.toLowerCase() : q\<close>, converted to
  a string.
\<close>

definition request_url :: "query \<Rightarrow> string" where
  "request_url q =
     ''https://pokeapi.co/api/v2/pokemon/'' @
       (case q of Str s \<Rightarrow> toLowerCase s | Num n \<Rightarrow> n)"

definition getPokemon ::
  "(string \<Rightarrow> response option) \<Rightarrow> query \<Rightarrow> string list \<times> (error + Pokemon)" where
  "getPokemon fetch qry =
     (let q = or_one qry; url = request_url q
      in ([url],
          case fetch url of
            None \<Rightarrow> Inl TypeError
          | Some response \<Rightarrow>
              if \<not> ok response then Inl (Error ''Pokemon not found'')
              else (case json response of None \<Rightarrow> Inl SyntaxError | Some p \<Rightarrow> Inr p)))"

section \<open>Derived notions used in the statements\<close>

text \<open>
  What one defending type with entry \<open>data\<close> does to the multiplier of the attacking
  type \<open>t\<close>: the three loops multiply it by \<^verbatim>\<open>2\<close>, \<^verbatim>\<open>0.5\<close> and \<^verbatim>\<open>0\<close> when \<open>t\<close> is in
  the respective list.
\<close>

definition factor :: "TypeEffectiveness \<Rightarrow> string \<Rightarrow> number \<Rightarrow> number" where
  "factor data t v =
     (let a = (if t \<in> set (double data) then js_times v two_n else v);
          b = (if t \<in> set (half data) then js_times a half_n else a)
      in if t \<in> set (zero data) then js_times b Zero else b)"

text \<open>The same for a defending type as the caller passes it: an unknown name does nothing.\<close>

definition contribution :: "string \<Rightarrow> string \<Rightarrow> number \<Rightarrow> number" where
  "contribution t defendingType v =
     (case TYPE_CHART_get (toLowerCase defendingType) of
        Entry data \<Rightarrow> factor data t v
      | _ \<Rightarrow> v)"

text \<open>A list of defending types on which \<^verbatim>\<open>calculateDefensiveMatchups\<close> throws.\<close>

definition throws :: "string list \<Rightarrow> bool" where
  "throws ds = list_ex (\<lambda>d. TYPE_CHART_get (toLowerCase d) = Inherited) ds"

text \<open>Well-formedness of an entry: its lists name keys of the chart, without repetition.\<close>

definition closed_data :: "TypeEffectiveness \<Rightarrow> bool" where
  "closed_data data =
     (list_all (\<lambda>t. t \<in> set allTypes) (double data) \<and>
      list_all (\<lambda>t. t \<in> set allTypes) (half data) \<and>
      list_all (\<lambda>t. t \<in> set allTypes) (zero data))"

definition distinct_data :: "TypeEffectiveness \<Rightarrow> bool" where
  "distinct_data data = (distinct (double data) \<and> distinct (half data) \<and> distinct (zero data))"

text \<open>
  The exact value of a multiplier: \<open>0\<close> once some defending type has had the attacking
  type in its \<^verbatim>\<open>zero\<close> list, and otherwise two to the power of the number of \<^verbatim>\<open>double\<close>
  lists minus the number of \<^verbatim>\<open>half\<close> lists it was in. \<open>zeroes t d\<close> and \<open>exponent t d\<close>
  are what the defending type \<open>d\<close> adds for the attacking type \<open>t\<close>.
\<close>

definition repr :: "bool \<Rightarrow> int \<Rightarrow> number" where
  "repr z e = (if z then Zero else Pow2 e)"

definition zeroes :: "string \<Rightarrow> string \<Rightarrow> bool" where
  "zeroes t d = (case TYPE_CHART_get (toLowerCase d) of Entry data \<Rightarrow> t \<in> set (zero data) | _ \<Rightarrow> False)"

definition exponent :: "string \<Rightarrow> string \<Rightarrow> int" where
  "exponent t d =
     (case TYPE_CHART_get (toLowerCase d) of
        Entry data \<Rightarrow> (if t \<in> set (double data) then 1 else 0) - (if t \<in> set (half data) then 1 else 0)
      | _ \<Rightarrow> 0)"

text \<open>\<^verbatim>\<open>result[t]\<close> for the mapping the function returned, if it returned one.\<close>

definition at_type :: "error + matchups \<Rightarrow> string \<Rightarrow> number option" where
  "at_type r t = (case r of Inl e \<Rightarrow> None | Inr m \<Rightarrow> map_of m t)"

text \<open>
  The callback of \<^verbatim>\<open>teamDisadvantage\<close> for a member with the type names \<open>ts\<close>, where it
  returns: some strength of the current Pokemon has a multiplier above \<^verbatim>\<open>1\<close>.
\<close>

definition at_risk :: "string list \<Rightarrow> string list \<Rightarrow> bool" where
  "at_risk strengths ts =
     (case calculateDefensiveMatchups ts of
        Inl e \<Rightarrow> False
      | Inr memberMatchups \<Rightarrow> list_ex (weak_to memberMatchups) strengths)"

text \<open>The callback of \<^verbatim>\<open>teamAdvantage\<close>, for the weaknesses of the types \<open>cur\<close>.\<close>

definition advantaged :: "string list \<Rightarrow> Pokemon \<Rightarrow> bool" where
  "advantaged cur member =
     (case calculateDefensiveMatchups cur of
        Inl e \<Rightarrow> False
      | Inr m \<Rightarrow> list_ex (\<lambda>t. t \<in> set (weaknesses m)) (types member))"

text \<open>What the team is to satisfy: at most six members, no identifying number twice.\<close>

definition team_ok :: "home_state \<Rightarrow> bool" where
  "team_ok s = (length (team s) \<le> 6 \<and> distinct (map idnum (team s)))"

section \<open>The chart and the defensive multipliers, key by key\<close>

lemma distinct_allTypes: "distinct allTypes"
  by code_simp

lemma length_allTypes: "length allTypes = 18"
  by code_simp

lemma chart_closed: "list_all (\<lambda>(k, data). closed_data data) TYPE_CHART"
  by code_simp

lemma chart_distinct: "list_all (\<lambda>(k, data). distinct_data data) TYPE_CHART"
  by code_simp

lemma init_matchups: "fold (\<lambda>t m. AList.update t one_n m) allTypes [] = map (\<lambda>t. (t, one_n)) allTypes"
  by code_simp

lemma Entry_in_chart: "TYPE_CHART_get k = Entry data \<Longrightarrow> (k, data) \<in> set TYPE_CHART"
  by (auto simp: TYPE_CHART_get_def split: option.splits if_splits dest: map_of_SomeD)

lemma Entry_closed: "TYPE_CHART_get k = Entry data \<Longrightarrow> closed_data data"
  using chart_closed Entry_in_chart by (fastforce simp: list_all_iff)

lemma Entry_distinct: "TYPE_CHART_get k = Entry data \<Longrightarrow> distinct_data data"
  using chart_distinct Entry_in_chart by (fastforce simp: list_all_iff)

lemma map_of_keyed: "t \<in> set ks \<Longrightarrow> map_of (map (\<lambda>k. (k, v k)) ks) t = Some (v t)"
  by (induction ks) auto

lemma update_keyed:
  "distinct ks \<Longrightarrow> t \<in> set ks \<Longrightarrow> AList.update t x (map (\<lambda>k. (k, v k)) ks) = map (\<lambda>k. (k, (v(t := x)) k)) ks"
  by (induction ks) auto

lemma times_assign_keyed:
  "distinct ks \<Longrightarrow> t \<in> set ks \<Longrightarrow>
   times_assign f t (map (\<lambda>k. (k, v k)) ks) = map (\<lambda>k. (k, (v(t := js_times (v t) f)) k)) ks"
  by (simp add: times_assign_def map_of_keyed update_keyed)

lemma fold_times_assign_keyed:
  "distinct ks \<Longrightarrow> set ts \<subseteq> set ks \<Longrightarrow> distinct ts \<Longrightarrow>
   fold (times_assign f) ts (map (\<lambda>k. (k, v k)) ks) =
   map (\<lambda>k. (k, if k \<in> set ts then js_times (v k) f else v k)) ks"
proof (induction ts arbitrary: v)
  case Nil
  then show ?case by simp
next
  case (Cons t ts)
  have "fold (times_assign f) (t # ts) (map (\<lambda>k. (k, v k)) ks) =
        fold (times_assign f) ts (map (\<lambda>k. (k, (v(t := js_times (v t) f)) k)) ks)"
    using Cons.prems by (simp add: times_assign_keyed)
  also have "\<dots> = map (\<lambda>k. (k, if k \<in> set ts then js_times ((v(t := js_times (v t) f)) k) f
                                 else (v(t := js_times (v t) f)) k)) ks"
    using Cons.prems by (intro Cons.IH) auto
  also have "\<dots> = map (\<lambda>k. (k, if k \<in> set (t # ts) then js_times (v k) f else v k)) ks"
    using Cons.prems by auto
  finally show ?case .
qed

lemma apply_data_keyed:
  assumes "closed_data data" "distinct_data data"
  shows "apply_data data (map (\<lambda>k. (k, v k)) allTypes) = map (\<lambda>k. (k, factor data k (v k))) allTypes"
proof -
  from assms have sub: "set (double data) \<subseteq> set allTypes" "set (half data) \<subseteq> set allTypes"
      "set (zero data) \<subseteq> set allTypes"
    and dis: "distinct (double data)" "distinct (half data)" "distinct (zero data)"
    by (auto simp: closed_data_def distinct_data_def list_all_iff)
  show ?thesis
    unfolding apply_data_def
    by (simp add: fold_times_assign_keyed distinct_allTypes sub dis factor_def Let_def)
qed

lemma contribution_Undefined:
  "TYPE_CHART_get (toLowerCase d) = Undefined \<Longrightarrow> contribution k d v = v"
  by (simp add: contribution_def)

lemma contribution_Entry:
  "TYPE_CHART_get (toLowerCase d) = Entry data \<Longrightarrow> contribution k d v = factor data k v"
  by (simp add: contribution_def)

lemma forEach_types_keyed:
  "forEach_types ds (map (\<lambda>k. (k, v k)) allTypes) =
     (if throws ds then Inl TypeError
      else Inr (map (\<lambda>k. (k, fold (contribution k) ds (v k))) allTypes))"
proof (induction ds arbitrary: v)
  case Nil
  then show ?case by (simp add: throws_def)
next
  case (Cons d ds)
  show ?case
  proof (cases "TYPE_CHART_get (toLowerCase d)")
    case Undefined
    then show ?thesis using Cons.IH [of v] by (simp add: throws_def contribution_Undefined)
  next
    case (Entry data)
    then show ?thesis
      using Cons.IH [of "\<lambda>k. factor data k (v k)"]
      by (simp add: throws_def contribution_Entry apply_data_keyed Entry_closed Entry_distinct)
  next
    case Inherited
    then show ?thesis by (simp add: throws_def)
  qed
qed

lemma calculateDefensiveMatchups_keyed:
  "calculateDefensiveMatchups ds =
     (if throws ds then Inl TypeError
      else Inr (map (\<lambda>k. (k, fold (contribution k) ds one_n)) allTypes))"
  unfolding calculateDefensiveMatchups_def init_matchups by (rule forEach_types_keyed)

subsection \<open>Exact multipliers up to 1023 defending types\<close>

text \<open>
  While the exponent is between \<open>-1022\<close> and \<open>1022\<close> a defending type changes it by
  at most one and no product is rounded, so the value after \<open>n \<le> 1023\<close> types is exact.
\<close>

lemma exponent_bound: "\<bar>exponent t d\<bar> \<le> 1"
  by (simp add: exponent_def split: property.splits)

lemma contribution_repr:
  "\<bar>e\<bar> \<le> 1022 \<Longrightarrow> contribution t d (repr z e) = repr (z \<or> zeroes t d) (e + exponent t d)"
  by (cases "TYPE_CHART_get (toLowerCase d)")
     (auto simp: contribution_def factor_def repr_def zeroes_def exponent_def Let_def)

lemma fold_contribution_repr:
  "\<bar>e\<bar> + int (length ds) \<le> 1023 \<Longrightarrow>
   fold (contribution t) ds (repr z e) =
   repr (z \<or> list_ex (zeroes t) ds) (e + sum_list (map (exponent t) ds))"
proof (induction ds arbitrary: z e)
  case Nil
  then show ?case by simp
next
  case (Cons d ds)
  have b: "\<bar>exponent t d\<bar> \<le> 1" by (rule exponent_bound)
  from Cons.prems have e: "\<bar>e\<bar> \<le> 1022" by simp
  have "\<bar>e + exponent t d\<bar> + int (length ds) \<le> 1023"
    using Cons.prems b by simp
  from Cons.IH [OF this, of "z \<or> zeroes t d"] e show ?case
    by (simp add: contribution_repr add.assoc)
qed

lemma sum_exponent_bound: "\<bar>sum_list (map (exponent t) ds)\<bar> \<le> int (length ds)"
proof (induction ds)
  case Nil
  then show ?case by simp
next
  case (Cons d ds)
  have "\<bar>exponent t d\<bar> \<le> 1" by (rule exponent_bound)
  with Cons show ?case by simp
qed

lemma multiplier_exact:
  "length ds \<le> 1023 \<Longrightarrow>
   fold (contribution t) ds one_n =
   repr (list_ex (zeroes t) ds) (sum_list (map (exponent t) ds))"
  using fold_contribution_repr [of 0 ds t False] by (simp add: repr_def)

lemma multiplier_perm:
  assumes "length ds \<le> 1023" "mset ds = mset ds'"
  shows "fold (contribution t) ds one_n = fold (contribution t) ds' one_n"
proof -
  from assms have len: "length ds' \<le> 1023"
    by (metis size_mset)
  have s: "set ds = set ds'" using assms(2) by (rule mset_eq_setD)
  have "sum_list (map (exponent t) ds) = sum_mset (image_mset (exponent t) (mset ds))"
    by (metis mset_map sum_mset_sum_list)
  also have "\<dots> = sum_list (map (exponent t) ds')"
    unfolding assms(2) by (metis mset_map sum_mset_sum_list)
  finally show ?thesis
    by (simp add: multiplier_exact assms(1) len list_ex_iff s)
qed

lemma throws_perm: "mset ds = mset ds' \<Longrightarrow> throws ds = throws ds'"
  by (auto simp: throws_def list_ex_iff dest: mset_eq_setD)

lemma multiplier_is_multiplier:
  "length ds \<le> 1023 \<Longrightarrow> is_multiplier (fold (contribution t) ds one_n)"
  using sum_exponent_bound [of t ds] by (auto simp: multiplier_exact repr_def)

subsection \<open>Overflow\<close>

text \<open>
  1024 defending types that all double the same attacking type take its multiplier
  from \<open>2 ^ 1023\<close> to \<^verbatim>\<open>Infinity\<close>; a type that then multiplies by \<^verbatim>\<open>0\<close> leaves \<^verbatim>\<open>NaN\<close>.
\<close>

lemma at_type_calculate:
  "t \<in> set allTypes \<Longrightarrow> \<not> throws ds \<Longrightarrow>
   at_type (calculateDefensiveMatchups ds) t = Some (fold (contribution t) ds one_n)"
  by (simp add: at_type_def calculateDefensiveMatchups_keyed map_of_keyed)

lemma throws_set: "set ds = set ds' \<Longrightarrow> throws ds = throws ds'"
  by (simp add: throws_def list_ex_iff)

lemma contribution_Zero: "contribution t d Zero = Zero"
  by (simp add: contribution_def factor_def split: property.splits)

lemma fold_contribution_Zero: "fold (contribution t) ds Zero = Zero"
  by (induction ds) (simp_all add: contribution_Zero)

lemma replicate_1024: "replicate 1024 x = replicate 1023 x @ [x]"
proof -
  have "(1024::nat) = Suc 1023" by simp
  then show ?thesis by (simp only: replicate_Suc replicate_append_same)
qed

lemma doubled_1023:
  assumes "exponent t x = 1" "\<not> zeroes t x"
  shows "fold (contribution t) (replicate 1023 x) one_n = Pow2 1023"
proof -
  have "fold (contribution t) (replicate 1023 x) one_n =
        repr (list_ex (zeroes t) (replicate 1023 x)) (sum_list (map (exponent t) (replicate 1023 x)))"
    by (rule multiplier_exact) simp
  also have "\<dots> = Pow2 1023"
    using assms by (simp add: list_ex_iff sum_list_replicate repr_def)
  finally show ?thesis .
qed

lemma overflow_then_zero:
  assumes "exponent t x = 1" "\<not> zeroes t x"
    and "contribution t x (Pow2 1023) = Infinity" "contribution t y Infinity = NaN"
  shows "fold (contribution t) (replicate 1024 x @ [y]) one_n = NaN"
proof -
  have "fold (contribution t) (replicate 1024 x @ [y]) one_n =
        contribution t y (contribution t x (fold (contribution t) (replicate 1023 x) one_n))"
    by (simp add: replicate_1024 del: fold_replicate)
  also have "\<dots> = contribution t y (contribution t x (Pow2 1023))"
    by (simp only: doubled_1023 [OF assms(1,2)])
  also have "\<dots> = NaN"
    using assms(3,4) by simp
  finally show ?thesis .
qed

lemma zero_then_doubled:
  assumes "contribution t y one_n = Zero"
  shows "fold (contribution t) (y # ds) one_n = Zero"
  using assms by (simp add: fold_contribution_Zero)

lemma psychic_normal:
  "exponent ''ghost'' ''psychic'' = 1" "\<not> zeroes ''ghost'' ''psychic''"
  "contribution ''ghost'' ''psychic'' (Pow2 1023) = Infinity"
  "contribution ''ghost'' ''normal'' Infinity = NaN"
  "contribution ''ghost'' ''normal'' one_n = Zero"
  "\<not> throws [''psychic'', ''normal'']" "''ghost'' \<in> set allTypes"
  by code_simp+

lemma keys_calculate:
  "calculateDefensiveMatchups ds = Inr m \<Longrightarrow> map fst m = allTypes"
  by (auto simp: calculateDefensiveMatchups_keyed comp_def split: if_splits)

lemma calculate_throws: "calculateDefensiveMatchups ds = Inl e \<longleftrightarrow> throws ds \<and> e = TypeError"
  by (auto simp: calculateDefensiveMatchups_keyed)

lemma values_calculate:
  assumes "length ds \<le> 1023" "calculateDefensiveMatchups ds = Inr m"
  shows "list_all (\<lambda>(t, v). is_multiplier v) m"
proof -
  from assms(2) have "m = map (\<lambda>k. (k, fold (contribution k) ds one_n)) allTypes"
    by (auto simp: calculateDefensiveMatchups_keyed split: if_splits)
  then show ?thesis
    using assms(1) by (simp add: list_all_iff multiplier_is_multiplier)
qed

lemma dragon_fairy:
  "exponent ''dragon'' ''dragon'' = 1" "\<not> zeroes ''dragon'' ''dragon''"
  "contribution ''dragon'' ''dragon'' (Pow2 1023) = Infinity"
  "contribution ''dragon'' ''fairy'' Infinity = NaN"
  "\<not> throws [''dragon'', ''fairy'']" "''dragon'' \<in> set allTypes"
  by code_simp+

lemma water_ground:
  "exponent ''electric'' ''water'' = 1" "\<not> zeroes ''electric'' ''water''"
  "contribution ''electric'' ''water'' (Pow2 1023) = Infinity"
  "contribution ''electric'' ''ground'' Infinity = NaN"
  "\<not> throws [''water'', ''ground'']" "''electric'' \<in> set allTypes"
  by code_simp+

lemma overflow_result:
  assumes "exponent t x = 1" "\<not> zeroes t x"
    and "contribution t x (Pow2 1023) = Infinity" "contribution t y Infinity = NaN"
    and "\<not> throws [x, y]" "t \<in> set allTypes"
  shows "at_type (calculateDefensiveMatchups (replicate 1024 x @ [y])) t = Some NaN"
proof -
  have "set (replicate 1024 x @ [y]) = set [x, y]" by auto
  from throws_set [OF this] assms(5) have "\<not> throws (replicate 1024 x @ [y])" by simp
  from at_type_calculate [OF assms(6) this] overflow_then_zero [OF assms(1,2,3,4)]
  show ?thesis by simp
qed

subsection \<open>Names outside the chart\<close>

lemma unknown_neutral_forEach:
  "TYPE_CHART_get (toLowerCase u) = Undefined \<Longrightarrow>
   forEach_types (xs @ u # ys) m = forEach_types (xs @ ys) m"
  by (induction xs arbitrary: m) (simp_all split: property.splits)

lemma inherited_throws_forEach:
  "TYPE_CHART_get (toLowerCase u) = Inherited \<Longrightarrow> forEach_types (xs @ u # ys) m = Inl TypeError"
  by (induction xs arbitrary: m) (simp_all split: property.splits)

text \<open>
  A name the chart does not have is neutral for \<^verbatim>\<open>calculateDefensiveMatchups\<close> unless
  its lower-case form is a property that a plain object inherits; then the function
  throws, wherever the name stands in the list.
\<close>

lemma unknown_defensive:
  assumes "toLowerCase u \<notin> set allTypes"
  shows "calculateDefensiveMatchups (xs @ u # ys) =
     (if toLowerCase u \<in> set Object_prototype then Inl TypeError
      else calculateDefensiveMatchups (xs @ ys))"
proof -
  from assms have "map_of TYPE_CHART (toLowerCase u) = None"
    by (simp add: allTypes_def map_of_eq_None_iff)
  then have "TYPE_CHART_get (toLowerCase u) =
      (if toLowerCase u \<in> set Object_prototype then Inherited else Undefined)"
    by (simp add: TYPE_CHART_get_def)
  then show ?thesis
    by (simp add: calculateDefensiveMatchups_def unknown_neutral_forEach inherited_throws_forEach)
qed

lemma double_in_allTypes:
  assumes "(k, data) \<in> set TYPE_CHART" "t \<in> set (double data)"
  shows "t \<in> set allTypes"
proof -
  from assms(1) chart_closed have "closed_data data"
    by (auto simp: list_all_iff)
  with assms(2) show ?thesis by (simp add: closed_data_def list_all_iff)
qed

lemma fold_scan_neutral:
  "\<forall>(k, data) \<in> set chart. a \<notin> set (double data) \<Longrightarrow>
   fold (\<lambda>(defType, data) acc. if a \<in> set (double data) then set_add defType acc else acc)
     chart s = s"
  by (induction chart arbitrary: s) auto

lemma scan_chart_unknown: "toLowerCase u \<notin> set allTypes \<Longrightarrow> scan_chart u s = s"
  unfolding scan_chart_def
  by (rule fold_scan_neutral) (auto dest: double_in_allTypes)

text \<open>
  For \<^verbatim>\<open>getOffensiveStrengths\<close> every name outside the chart is neutral: it scans the
  own entries only.
\<close>

lemma unknown_offensive:
  "toLowerCase u \<notin> set allTypes \<Longrightarrow>
   getOffensiveStrengths (xs @ u # ys) = getOffensiveStrengths (xs @ ys)"
  by (simp add: getOffensiveStrengths_def scan_chart_unknown)

subsection \<open>Closure of the chart\<close>

lemma chart_lists_closed:
  "list_all (\<lambda>(k, data). list_all (\<lambda>t. t \<in> set allTypes) (double data @ half data @ zero data))
     TYPE_CHART"
  using chart_closed by (auto simp: list_all_iff closed_data_def)

lemma present_calculate:
  assumes "calculateDefensiveMatchups ds = Inr m" "length ds \<le> 1023"
  shows "list_all (\<lambda>t. case map_of m t of None \<Rightarrow> False | Some v \<Rightarrow> is_multiplier v) allTypes"
proof -
  from assms(1) have "m = map (\<lambda>k. (k, fold (contribution k) ds one_n)) allTypes"
    by (auto simp: calculateDefensiveMatchups_keyed split: if_splits)
  then show ?thesis
    using assms(2) by (simp add: list_all_iff map_of_keyed multiplier_is_multiplier)
qed

subsection \<open>getOffensiveStrengths and the comparison\<close>

lemma set_fold_scan:
  "set (fold (\<lambda>(defType, data) acc. if a \<in> set (double data) then set_add defType acc else acc)
          chart s) =
   set s \<union> {d. \<exists>data. (d, data) \<in> set chart \<and> a \<in> set (double data)}"
proof (induction chart arbitrary: s)
  case Nil
  then show ?case by simp
next
  case (Cons entry chart)
  obtain defType data where e: "entry = (defType, data)" by (cases entry)
  show ?case
    unfolding e by (cases "a \<in> set (double data)") (auto simp: Cons.IH set_add_def)
qed

lemma distinct_fold_scan:
  "distinct s \<Longrightarrow>
   distinct (fold (\<lambda>(defType, data) acc. if a \<in> set (double data) then set_add defType acc else acc)
          chart s)"
  by (induction chart arbitrary: s) (auto simp: set_add_def)

lemma set_fold_scan_chart:
  "set (fold scan_chart ts s) =
   set s \<union> {d. \<exists>t \<in> set ts. \<exists>data. (d, data) \<in> set TYPE_CHART \<and> toLowerCase t \<in> set (double data)}"
  by (induction ts arbitrary: s) (auto simp: scan_chart_def set_fold_scan)

lemma distinct_fold_scan_chart: "distinct s \<Longrightarrow> distinct (fold scan_chart ts s)"
  by (induction ts arbitrary: s) (simp_all add: scan_chart_def distinct_fold_scan)

lemma chart_entry_iff: "(d, data) \<in> set TYPE_CHART \<longleftrightarrow> map_of TYPE_CHART d = Some data"
  using distinct_allTypes by (simp add: allTypes_def)

lemma filter_disadvantage_eq:
  "filter_disadvantage strengths roster =
     (if list_ex (\<lambda>p. throws (types p)) roster then Inl TypeError
      else Inr (filter (\<lambda>member. at_risk strengths (types member)) roster))"
proof (induction roster)
  case Nil
  then show ?case by simp
next
  case (Cons member rest)
  show ?case
  proof (cases "calculateDefensiveMatchups (types member)")
    case (Inl e)
    then have "throws (types member)" "e = TypeError"
      using calculate_throws [of "types member" e] by auto
    with Inl show ?thesis by simp
  next
    case (Inr m)
    then have "\<not> throws (types member)"
      using calculate_throws [of "types member" TypeError] by auto
    with Inr Cons.IH show ?thesis by (simp add: at_risk_def)
  qed
qed

lemma comparison_eq:
  "comparison pokemon roster =
     (if throws (currentTypes pokemon) \<or> list_ex (\<lambda>p. throws (types p)) roster then Inl TypeError
      else Inr (filter (advantaged (currentTypes pokemon)) roster,
                filter (\<lambda>member. at_risk (getOffensiveStrengths (currentTypes pokemon)) (types member))
                  roster))"
proof (cases "calculateDefensiveMatchups (currentTypes pokemon)")
  case (Inl e)
  then have "throws (currentTypes pokemon)" "e = TypeError"
    using calculate_throws [of "currentTypes pokemon" e] by auto
  with Inl show ?thesis by (simp add: comparison_def)
next
  case (Inr m)
  then have "\<not> throws (currentTypes pokemon)"
    using calculate_throws [of "currentTypes pokemon" TypeError] by auto
  moreover from Inr have "advantaged (currentTypes pokemon) =
      (\<lambda>member. list_ex (\<lambda>t. t \<in> set (weaknesses m)) (types member))"
    by (simp add: advantaged_def fun_eq_iff)
  ultimately show ?thesis
    using Inr by (simp add: comparison_def filter_disadvantage_eq Let_def)
qed

lemma calculate_Nil: "calculateDefensiveMatchups [] = Inr (map (\<lambda>t. (t, one_n)) allTypes)"
  by (simp add: calculateDefensiveMatchups_keyed throws_def)

lemma weaknesses_ones: "weaknesses (map (\<lambda>t. (t, one_n)) ks) = []"
  by (induction ks) (simp_all add: weaknesses_def)

lemma advantaged_Nil: "\<not> advantaged [] member"
  by (simp add: advantaged_def calculate_Nil weaknesses_ones list_ex_iff)

lemma at_risk_Nil: "\<not> at_risk [] ts"
  by (simp add: at_risk_def split: sum.splits)

lemma getOffensiveStrengths_Nil: "getOffensiveStrengths [] = []"
  by (simp add: getOffensiveStrengths_def)

text \<open>
  Without a current Pokemon both lists are empty, unless a member of the roster makes
  \<^verbatim>\<open>calculateDefensiveMatchups\<close> throw; with an empty roster both are empty, unless the
  current Pokemon does.
\<close>

lemma comparison_absent:
  "comparison None roster =
     (if list_ex (\<lambda>p. throws (types p)) roster then Inl TypeError else Inr ([], []))"
  by (simp add: comparison_eq currentTypes_def throws_def advantaged_Nil at_risk_Nil
      getOffensiveStrengths_Nil)

lemma comparison_empty:
  "comparison pokemon [] = (if throws (currentTypes pokemon) then Inl TypeError else Inr ([], []))"
  by (simp add: comparison_eq)

lemma ghost_facts:
  "getOffensiveStrengths [''ghost''] = [''psychic'', ''ghost'']"
  "\<not> throws [''ghost'']"
  "at_risk [''psychic'', ''ghost''] [''psychic'']"
  by code_simp+

subsection \<open>The team operations\<close>

lemma addToTeam_rejects:
  assumes "6 \<le> length (team s) \<or> idnum p \<in> idnum ` set (team s)"
  shows "team (addToTeam (Some p) s) = team s"
    and "toasts (addToTeam (Some p) s) = toasts s @ [''BOX FULL!''] \<or>
         toasts (addToTeam (Some p) s) = toasts s @ [''ALREADY CAUGHT!'']"
  using assms by (auto simp: addToTeam_def toast_def find_None_iff)

lemma addToTeam_appends:
  assumes "length (team s) < 6" "idnum p \<notin> idnum ` set (team s)"
  shows "team (addToTeam (Some p) s) = team s @ [p]"
    and "toasts (addToTeam (Some p) s) = toasts s @ [''GOTCHA!'']"
  using assms by (auto simp: addToTeam_def toast_def find_None_iff image_iff)

lemma removeFromTeam_absent: "i \<notin> idnum ` set (team s) \<Longrightarrow> removeFromTeam i s = s"
proof -
  assume "i \<notin> idnum ` set (team s)"
  then have "filter (\<lambda>p. idnum p \<noteq> i) (team s) = team s"
    by (auto simp: filter_id_conv)
  then show ?thesis by (simp add: removeFromTeam_def)
qed

lemma team_ok_addToTeam: "team_ok s \<Longrightarrow> team_ok (addToTeam pokemon s)"
  by (cases pokemon) (auto simp: team_ok_def addToTeam_def toast_def find_None_iff image_iff)

lemma team_ok_removeFromTeam: "team_ok s \<Longrightarrow> team_ok (removeFromTeam i s)"
proof -
  assume a: "team_ok s"
  have "length (filter (\<lambda>p. idnum p \<noteq> i) (team s)) \<le> length (team s)"
    by (rule length_filter_le)
  also from a have "\<dots> \<le> 6" by (simp add: team_ok_def)
  finally have "length (filter (\<lambda>p. idnum p \<noteq> i) (team s)) \<le> 6" .
  moreover from a have "distinct (map idnum (filter (\<lambda>p. idnum p \<noteq> i) (team s)))"
    by (simp add: team_ok_def distinct_map_filter)
  ultimately show ?thesis
    by (simp add: team_ok_def removeFromTeam_def)
qed

lemma team_ok_click: "team_ok s \<Longrightarrow> team_ok (click_step c s)"
  by (cases c) (simp_all add: team_ok_addToTeam team_ok_removeFromTeam, simp add: team_ok_def clearTeam_def)

lemma team_ok_fold: "team_ok s \<Longrightarrow> team_ok (fold click_step cs s)"
  by (induction cs arbitrary: s) (simp_all add: team_ok_click)

lemma team_ok_after_clicks: "team_ok (after_clicks cs)"
  unfolding after_clicks_def by (rule team_ok_fold) (simp add: team_ok_def initial_def)

subsection \<open>getPokemon\<close>

lemma getPokemon_requests: "fst (getPokemon fetch q) = [request_url (or_one q)]"
  by (simp add: getPokemon_def Let_def)

lemma getPokemon_not_found:
  "snd (getPokemon fetch q) = Inl (Error ''Pokemon not found'') \<longleftrightarrow>
   (\<exists>r. fetch (request_url (or_one q)) = Some r \<and> \<not> ok r)"
  by (auto simp: getPokemon_def Let_def split: option.splits)

subsection \<open>The names that throw\<close>

lemma lower_char_not_upper: "lower_char c \<notin> set ''ABCDEFGHIJKLMNOPQRSTUVWXYZ''"
  by (simp add: lower_char_def upper_letters_def lower_letters_def)

lemma toLowerCase_not_upper:
  "c \<in> set ''ABCDEFGHIJKLMNOPQRSTUVWXYZ'' \<Longrightarrow> c \<notin> set (toLowerCase d)"
  using lower_char_not_upper by (auto simp: toLowerCase_def)

text \<open>
  After lower-casing, the only inherited properties a type name can hit are
  \<^verbatim>\<open>constructor\<close> and \<^verbatim>\<open>__proto__\<close>: the other names have an upper-case letter.
\<close>

lemma inherited_iff:
  "TYPE_CHART_get (toLowerCase d) = Inherited \<longleftrightarrow>
   toLowerCase d = ''constructor'' \<or> toLowerCase d = ''__proto__''"
proof -
  have G: "toLowerCase d \<noteq> ''__defineGetter__''" "toLowerCase d \<noteq> ''__lookupGetter__''"
    using toLowerCase_not_upper [of "CHR ''G''" d] by auto
  have S: "toLowerCase d \<noteq> ''__defineSetter__''" "toLowerCase d \<noteq> ''__lookupSetter__''"
    "toLowerCase d \<noteq> ''toString''" "toLowerCase d \<noteq> ''toLocaleString''"
    using toLowerCase_not_upper [of "CHR ''S''" d] by auto
  have O: "toLowerCase d \<noteq> ''hasOwnProperty''" "toLowerCase d \<noteq> ''valueOf''"
    "toLowerCase d \<noteq> ''isPrototypeOf''"
    using toLowerCase_not_upper [of "CHR ''O''" d] by auto
  have I: "toLowerCase d \<noteq> ''propertyIsEnumerable''"
    using toLowerCase_not_upper [of "CHR ''I''" d] by auto
  have c: "map_of TYPE_CHART ''constructor'' = None" "map_of TYPE_CHART ''__proto__'' = None"
    by code_simp+
  show ?thesis
  proof (cases "map_of TYPE_CHART (toLowerCase d)")
    case None
    then show ?thesis
      using G S O I by (auto simp: TYPE_CHART_get_def Object_prototype_def)
  next
    case (Some data)
    then show ?thesis using c by (auto simp: TYPE_CHART_get_def)
  qed
qed

lemma throws_iff:
  "throws ds \<longleftrightarrow> (\<exists>d \<in> set ds. toLowerCase d = ''constructor'' \<or> toLowerCase d = ''__proto__'')"
  by (simp add: throws_def list_ex_iff inherited_iff)

subsection \<open>Weaknesses of a team member\<close>

lemma weaknesses_keyed:
  "weaknesses (map (\<lambda>k. (k, v k)) ks) = filter (\<lambda>k. js_gt (v k) one_n) ks"
  by (induction ks) (simp_all add: weaknesses_def)

text \<open>
  On a mapping that \<^verbatim>\<open>calculateDefensiveMatchups\<close> returned, the list of weaknesses and
  the test \<^verbatim>\<open>memberMatchups[atkType] > 1\<close> agree.
\<close>

lemma weaknesses_weak_to:
  assumes "calculateDefensiveMatchups ts = Inr mm"
  shows "t \<in> set (weaknesses mm) \<longleftrightarrow> weak_to mm t"
proof -
  from assms have mm: "mm = map (\<lambda>k. (k, fold (contribution k) ts one_n)) allTypes"
    by (auto simp: calculateDefensiveMatchups_keyed split: if_splits)
  show ?thesis
  proof (cases "t \<in> set allTypes")
    case True
    then show ?thesis by (simp add: mm weaknesses_keyed weak_to_def map_of_keyed)
  next
    case False
    then have "map_of mm t = None"
      by (simp add: mm map_of_eq_None_iff image_iff)
    with False show ?thesis by (simp add: mm weaknesses_keyed weak_to_def)
  qed
qed

lemma psychic_weaknesses:
  "calculateDefensiveMatchups [''psychic''] =
     Inr (map (\<lambda>t. (t, fold (contribution t) [''psychic''] one_n)) allTypes)"
  "weaknesses (map (\<lambda>t. (t, fold (contribution t) [''psychic''] one_n)) allTypes) =
     [''bug'', ''ghost'', ''dark'']"
  by code_simp+

lemma normal_psychic_not_at_risk:
  "comparison (Some \<lparr>idnum = 200, name = ''misdreavus'', types = [''ghost'']\<rparr>)
     [\<lparr>idnum = 203, name = ''girafarig'', types = [''normal'', ''psychic'']\<rparr>] = Inr ([], [])"
  by code_simp

section \<open>The claims\<close>

subsection \<open>C1\<close>

text \<open>
  Claim C1, as stated, fails in its first part: the types whose \<^verbatim>\<open>double\<close> list
  contains \<^verbatim>\<open>ghost\<close> are \<^verbatim>\<open>psychic\<close> and \<^verbatim>\<open>ghost\<close>. The list \<^verbatim>\<open>ghost\<close>, \<^verbatim>\<open>dark\<close> is the
  \<^verbatim>\<open>double\<close> list of \<^verbatim>\<open>ghost\<close>'s own entry; the entry of \<^verbatim>\<open>dark\<close> does not list \<^verbatim>\<open>ghost\<close>.
  Nor is every team member that has the type \<^verbatim>\<open>psychic\<close> in \<^verbatim>\<open>teamDisadvantage\<close>: for a
  member of the types \<^verbatim>\<open>normal\<close> and \<^verbatim>\<open>psychic\<close> the multiplier of \<^verbatim>\<open>ghost\<close> is \<^verbatim>\<open>0\<close>
  (\<^verbatim>\<open>normal\<close>'s \<^verbatim>\<open>zero\<close> list), so its weaknesses do not include \<^verbatim>\<open>ghost\<close>.
\<close>

theorem C1_ghost_strengths_counterexample:
  "set (getOffensiveStrengths [''ghost'']) \<noteq> {''ghost'', ''dark''} \<and>
   comparison (Some \<lparr>idnum = 200, name = ''misdreavus'', types = [''ghost'']\<rparr>)
     [\<lparr>idnum = 203, name = ''girafarig'', types = [''normal'', ''psychic'']\<rparr>] = Inr ([], [])"
proof -
  have "''psychic'' \<in> set (getOffensiveStrengths [''ghost''])"
    by (simp add: ghost_facts(1))
  moreover have "''psychic'' \<notin> {''ghost'', ''dark''}" by simp
  ultimately have "set (getOffensiveStrengths [''ghost'']) \<noteq> {''ghost'', ''dark''}"
    by metis
  with normal_psychic_not_at_risk show ?thesis by blast
qed

text \<open>
  Claim C1, amended. \<^verbatim>\<open>getOffensiveStrengths(["ghost"])\<close> is \<^verbatim>\<open>psychic\<close>, \<^verbatim>\<open>ghost\<close>. The
  weaknesses of the single type \<^verbatim>\<open>psychic\<close> are \<^verbatim>\<open>bug\<close>, \<^verbatim>\<open>ghost\<close> and \<^verbatim>\<open>dark\<close>. When the
  current Pokemon has the single type \<^verbatim>\<open>ghost\<close>, every member of the team that has the
  type \<^verbatim>\<open>psychic\<close> and whose own weaknesses include \<^verbatim>\<open>ghost\<close> and \<^verbatim>\<open>dark\<close> is in
  \<^verbatim>\<open>teamDisadvantage\<close>, provided that no type name of a team member lower-cases to a
  property name inherited from \<^verbatim>\<open>Object.prototype\<close>.
\<close>

theorem C1_ghost_psychic_risk:
  "getOffensiveStrengths [''ghost''] = [''psychic'', ''ghost''] \<and>
   (\<exists>mm. calculateDefensiveMatchups [''psychic''] = Inr mm \<and>
         weaknesses mm = [''bug'', ''ghost'', ''dark'']) \<and>
   (types subject = [''ghost''] \<and> member \<in> set roster \<and> ''psychic'' \<in> set (types member) \<and>
    calculateDefensiveMatchups (types member) = Inr mm \<and>
    ''ghost'' \<in> set (weaknesses mm) \<and> ''dark'' \<in> set (weaknesses mm) \<and>
    \<not> list_ex (\<lambda>p. throws (types p)) roster \<longrightarrow>
      (\<exists>adv risk. comparison (Some subject) roster = Inr (adv, risk) \<and> member \<in> set risk))"
proof -
  have "at_risk [''psychic'', ''ghost''] (types member)"
    if "calculateDefensiveMatchups (types member) = Inr mm" "''ghost'' \<in> set (weaknesses mm)"
    using that weaknesses_weak_to [OF that(1), of "''ghost''"] by (simp add: at_risk_def)
  moreover have "\<exists>mm. calculateDefensiveMatchups [''psychic''] = Inr mm \<and>
         weaknesses mm = [''bug'', ''ghost'', ''dark'']"
    using psychic_weaknesses by blast
  ultimately show ?thesis
    by (simp add: comparison_eq currentTypes_def ghost_facts)
qed

theorem C1_ghost_psychic_risk_witness:
  "types \<lparr>idnum = 200, name = ''misdreavus'', types = [''ghost'']\<rparr> = [''ghost''] \<and>
   \<lparr>idnum = 63, name = ''abra'', types = [''psychic'']\<rparr> \<in>
     set [\<lparr>idnum = 19, name = ''rattata'', types = [''normal'']\<rparr>,
          \<lparr>idnum = 63, name = ''abra'', types = [''psychic'']\<rparr>] \<and>
   ''psychic'' \<in> set (types \<lparr>idnum = 63, name = ''abra'', types = [''psychic'']\<rparr>) \<and>
   calculateDefensiveMatchups (types \<lparr>idnum = 63, name = ''abra'', types = [''psychic'']\<rparr>) =
     Inr (map (\<lambda>t. (t, fold (contribution t) [''psychic''] one_n)) allTypes) \<and>
   ''ghost'' \<in> set (weaknesses (map (\<lambda>t. (t, fold (contribution t) [''psychic''] one_n)) allTypes)) \<and>
   ''dark'' \<in> set (weaknesses (map (\<lambda>t. (t, fold (contribution t) [''psychic''] one_n)) allTypes)) \<and>
   \<not> list_ex (\<lambda>p. throws (types p))
     [\<lparr>idnum = 19, name = ''rattata'', types = [''normal'']\<rparr>,
      \<lparr>idnum = 63, name = ''abra'', types = [''psychic'']\<rparr>] \<and>
   (\<exists>adv risk.
      comparison (Some \<lparr>idnum = 200, name = ''misdreavus'', types = [''ghost'']\<rparr>)
        [\<lparr>idnum = 19, name = ''rattata'', types = [''normal'']\<rparr>,
         \<lparr>idnum = 63, name = ''abra'', types = [''psychic'']\<rparr>] = Inr (adv, risk) \<and>
      \<lparr>idnum = 63, name = ''abra'', types = [''psychic'']\<rparr> \<in> set risk)"
proof -
  have t: "\<not> list_ex (\<lambda>p. throws (types p))
     [\<lparr>idnum = 19, name = ''rattata'', types = [''normal'']\<rparr>,
      \<lparr>idnum = 63, name = ''abra'', types = [''psychic'']\<rparr>]"
    by code_simp
  have s: "types \<lparr>idnum = 200, name = ''misdreavus'', types = [''ghost'']\<rparr> = [''ghost'']"
    and m: "\<lparr>idnum = 63, name = ''abra'', types = [''psychic'']\<rparr> \<in>
     set [\<lparr>idnum = 19, name = ''rattata'', types = [''normal'']\<rparr>,
          \<lparr>idnum = 63, name = ''abra'', types = [''psychic'']\<rparr>]"
    and p: "''psychic'' \<in> set (types \<lparr>idnum = 63, name = ''abra'', types = [''psychic'']\<rparr>)"
    by simp_all
  have c: "calculateDefensiveMatchups (types \<lparr>idnum = 63, name = ''abra'', types = [''psychic'']\<rparr>) =
     Inr (map (\<lambda>t. (t, fold (contribution t) [''psychic''] one_n)) allTypes)"
    unfolding Pokemon.select_convs by (rule psychic_weaknesses(1))
  have g: "''ghost'' \<in> set (weaknesses (map (\<lambda>t. (t, fold (contribution t) [''psychic''] one_n)) allTypes))"
    and d: "''dark'' \<in> set (weaknesses (map (\<lambda>t. (t, fold (contribution t) [''psychic''] one_n)) allTypes))"
    unfolding psychic_weaknesses(2) by simp_all
  from t s m p c g d
    C1_ghost_psychic_risk [of "\<lparr>idnum = 200, name = ''misdreavus'', types = [''ghost'']\<rparr>"
      "\<lparr>idnum = 63, name = ''abra'', types = [''psychic'']\<rparr>"
      "[\<lparr>idnum = 19, name = ''rattata'', types = [''normal'']\<rparr>,
        \<lparr>idnum = 63, name = ''abra'', types = [''psychic'']\<rparr>]"
      "map (\<lambda>t. (t, fold (contribution t) [''psychic''] one_n)) allTypes"]
  show ?thesis by blast
qed

subsection \<open>C2\<close>

text \<open>
  Claim C2. \<^verbatim>\<open>getOffensiveStrengths(["water"])\<close> is \<^verbatim>\<open>fire\<close>, \<^verbatim>\<open>ground\<close>, \<^verbatim>\<open>rock\<close>, the
  types whose own entry lists \<^verbatim>\<open>water\<close> in \<^verbatim>\<open>double\<close>, and not water's own \<^verbatim>\<open>double\<close>
  list. In general a type \<open>d\<close> is in the result if and only if some supplied attacker,
  lower-cased, is in the \<^verbatim>\<open>double\<close> list of \<open>d\<close>'s entry; the result has no
  duplicates.
\<close>

theorem C2_offensive_inverse:
  "getOffensiveStrengths [''water''] = [''fire'', ''ground'', ''rock''] \<and>
   set (getOffensiveStrengths [''water'']) \<noteq> set [''electric'', ''grass''] \<and>
   (d \<in> set (getOffensiveStrengths ts) \<longleftrightarrow>
      (\<exists>t \<in> set ts. \<exists>data. map_of TYPE_CHART d = Some data \<and> toLowerCase t \<in> set (double data))) \<and>
   distinct (getOffensiveStrengths ts)"
proof -
  have w: "getOffensiveStrengths [''water''] = [''fire'', ''ground'', ''rock'']"
    by code_simp
  have "''fire'' \<notin> set [''electric'', ''grass'']" by simp
  with w have "set (getOffensiveStrengths [''water'']) \<noteq> set [''electric'', ''grass'']"
    by (metis list.set_intros(1))
  with w show ?thesis
    by (simp add: getOffensiveStrengths_def set_fold_scan_chart distinct_fold_scan_chart
        chart_entry_iff)
qed

theorem C2_offensive_inverse_witness:
  "(''fire'' \<in> set (getOffensiveStrengths [''Water'', ''ghost'']) \<longleftrightarrow>
      (\<exists>t \<in> set [''Water'', ''ghost'']. \<exists>data.
          map_of TYPE_CHART ''fire'' = Some data \<and> toLowerCase t \<in> set (double data))) \<and>
   ''fire'' \<in> set (getOffensiveStrengths [''Water'', ''ghost'']) \<and>
   distinct (getOffensiveStrengths [''Water'', ''ghost''])"
proof -
  have "''fire'' \<in> set (getOffensiveStrengths [''Water'', ''ghost''])" by code_simp
  with C2_offensive_inverse [of "''fire''" "[''Water'', ''ghost'']"] show ?thesis by blast
qed

subsection \<open>C3\<close>

text \<open>
  Claim C3, as stated, fails. A double holds no power of two beyond \<open>2 ^ 1023\<close>:
  1024 defending \<^verbatim>\<open>psychic\<close> entries take the multiplier of \<^verbatim>\<open>ghost\<close> to
  \<^verbatim>\<open>Infinity\<close>, and a following \<^verbatim>\<open>normal\<close> multiplies it by \<^verbatim>\<open>0\<close>, which gives
  \<^verbatim>\<open>NaN\<close>. With \<^verbatim>\<open>normal\<close> first the multiplier is \<^verbatim>\<open>0\<close> and stays \<^verbatim>\<open>0\<close>.
\<close>

theorem C3_order_counterexample:
  "mset (replicate 1024 ''psychic'' @ [''normal'']) = mset (''normal'' # replicate 1024 ''psychic'') \<and>
   calculateDefensiveMatchups (replicate 1024 ''psychic'' @ [''normal'']) \<noteq>
   calculateDefensiveMatchups (''normal'' # replicate 1024 ''psychic'')"
proof -
  have s1: "set (replicate 1024 ''psychic'' @ [''normal'']) = set [''psychic'', ''normal'']"
    and s2: "set (''normal'' # replicate 1024 ''psychic'') = set [''psychic'', ''normal'']"
    by auto
  have t1: "\<not> throws (replicate 1024 ''psychic'' @ [''normal''])"
    using psychic_normal(6) throws_set [OF s1] by simp
  have t2: "\<not> throws (''normal'' # replicate 1024 ''psychic'')"
    using psychic_normal(6) throws_set [OF s2] by simp
  have a: "at_type (calculateDefensiveMatchups (replicate 1024 ''psychic'' @ [''normal''])) ''ghost'' = Some NaN"
    by (simp only: at_type_calculate [OF psychic_normal(7) t1]
          overflow_then_zero [OF psychic_normal(1,2,3,4)])
  have b: "at_type (calculateDefensiveMatchups (''normal'' # replicate 1024 ''psychic'')) ''ghost'' = Some Zero"
    by (simp only: at_type_calculate [OF psychic_normal(7) t2]
          zero_then_doubled [OF psychic_normal(5)])
  from a b have "calculateDefensiveMatchups (replicate 1024 ''psychic'' @ [''normal'']) \<noteq>
    calculateDefensiveMatchups (''normal'' # replicate 1024 ''psychic'')"
    by auto
  then show ?thesis by simp
qed

text \<open>
  Claim C3, amended. For two lists of defending types that are permutations of each
  other and have at most 1023 entries, \<^verbatim>\<open>calculateDefensiveMatchups\<close> gives the same
  result: the same mapping, entry by entry and in the same key order (or, on names
  that make it throw, the same exception). In particular the results for
  \<^verbatim>\<open>["fire","flying"]\<close> and \<^verbatim>\<open>["flying","fire"]\<close> are equal.
\<close>

theorem C3_order_independent:
  assumes "length ds \<le> 1023" and "mset ds = mset ds'"
  shows "calculateDefensiveMatchups ds = calculateDefensiveMatchups ds'"
proof -
  have "fold (contribution k) ds one_n = fold (contribution k) ds' one_n" for k
    using assms by (rule multiplier_perm)
  then show ?thesis
    by (simp add: calculateDefensiveMatchups_keyed throws_perm [OF assms(2)])
qed

theorem C3_order_independent_witness:
  "length [''fire'', ''flying''] \<le> 1023 \<and>
   mset [''fire'', ''flying''] = mset [''flying'', ''fire''] \<and>
   calculateDefensiveMatchups [''fire'', ''flying''] =
   calculateDefensiveMatchups [''flying'', ''fire'']"
proof -
  have l: "length [''fire'', ''flying''] \<le> 1023" by simp
  have p: "mset [''fire'', ''flying''] = mset [''flying'', ''fire'']" by simp
  from l p C3_order_independent [OF l p] show ?thesis by blast
qed

subsection \<open>C4\<close>

text \<open>
  Claim C4, as stated, fails: not every value is a non-negative multiplier. After
  1024 defending \<^verbatim>\<open>dragon\<close> entries the multiplier of \<^verbatim>\<open>dragon\<close> has overflowed to
  \<^verbatim>\<open>Infinity\<close>, and a following \<^verbatim>\<open>fairy\<close> (whose \<^verbatim>\<open>zero\<close> list has \<^verbatim>\<open>dragon\<close>) turns it
  into \<^verbatim>\<open>NaN\<close>.
\<close>

theorem C4_multiplier_counterexample:
  "map_option is_multiplier
     (at_type (calculateDefensiveMatchups (replicate 1024 ''dragon'' @ [''fairy''])) ''dragon'') =
   Some False"
  by (simp add: overflow_result [OF dragon_fairy])

text \<open>
  Claim C4, amended. For every list of at most 1023 defending types, none of which
  lower-cases to a property name inherited from \<^verbatim>\<open>Object.prototype\<close>, and in
  particular for the empty list and for lists with unknown names,
  \<^verbatim>\<open>calculateDefensiveMatchups\<close> returns a mapping whose keys are exactly the 18 keys
  of the chart, each once, and whose values are all finite and non-negative: \<open>0\<close>
  or a power of two.
\<close>

theorem C4_all_types_multipliers:
  assumes "length ds \<le> 1023" and "\<not> throws ds"
  shows "\<exists>m. calculateDefensiveMatchups ds = Inr m \<and> map fst m = allTypes \<and>
             list_all (\<lambda>(t, v). is_multiplier v) m \<and>
             distinct allTypes \<and> length allTypes = 18"
proof -
  from assms(2) obtain m where m: "calculateDefensiveMatchups ds = Inr m"
    by (simp add: calculateDefensiveMatchups_keyed)
  from m have "map fst m = allTypes" by (rule keys_calculate)
  moreover from assms(1) m have "list_all (\<lambda>(t, v). is_multiplier v) m"
    by (rule values_calculate)
  ultimately show ?thesis
    using m distinct_allTypes length_allTypes by blast
qed

theorem C4_all_types_multipliers_witness:
  "length [''Fire'', ''stellar'', ''flying''] \<le> 1023 \<and> \<not> throws [''Fire'', ''stellar'', ''flying''] \<and>
   (\<exists>m. calculateDefensiveMatchups [''Fire'', ''stellar'', ''flying''] = Inr m \<and>
        map fst m = allTypes \<and> list_all (\<lambda>(t, v). is_multiplier v) m \<and>
        distinct allTypes \<and> length allTypes = 18)"
proof -
  have l: "length [''Fire'', ''stellar'', ''flying''] \<le> 1023" by simp
  have t: "\<not> throws [''Fire'', ''stellar'', ''flying'']" by code_simp
  from l t C4_all_types_multipliers [OF l t] show ?thesis by blast
qed

subsection \<open>C5\<close>

text \<open>
  Claim C5. The multiplier of an attacking type \<open>t\<close> starts at \<^verbatim>\<open>1\<close> and is
  multiplied, for each defending type in turn, by \<^verbatim>\<open>2\<close> when \<open>t\<close> is in the \<^verbatim>\<open>double\<close>
  list of that type's entry, by \<^verbatim>\<open>0.5\<close> when it is in the \<^verbatim>\<open>half\<close> list and by \<^verbatim>\<open>0\<close>
  when it is in the \<^verbatim>\<open>zero\<close> list (\<open>contribution\<close>), on every list of defending types
  on which the function returns. Up to 1023 defending types the products are exact:
  \<open>0\<close> if a \<^verbatim>\<open>zero\<close> list applied, and otherwise two to the power of the number of
  \<^verbatim>\<open>double\<close> lists minus the number of \<^verbatim>\<open>half\<close> lists that applied, neither capped nor
  rounded. So \<^verbatim>\<open>["ghost"]\<close> gives \<^verbatim>\<open>normal\<close> the multiplier \<^verbatim>\<open>0\<close>,
  \<^verbatim>\<open>["steel"]\<close> gives \<^verbatim>\<open>poison\<close> \<^verbatim>\<open>0\<close>, \<^verbatim>\<open>["water","grass"]\<close> gives \<^verbatim>\<open>electric\<close>
  \<^verbatim>\<open>2 * 0.5 = 1\<close>, and two types that both double \<^verbatim>\<open>rock\<close> give it \<^verbatim>\<open>4\<close>.
\<close>

theorem C5_compounding:
  "(\<not> throws ds \<longrightarrow>
      calculateDefensiveMatchups ds =
      Inr (map (\<lambda>t. (t, fold (contribution t) ds one_n)) allTypes)) \<and>
   (length ds \<le> 1023 \<longrightarrow>
      fold (contribution t) ds one_n =
      (if list_ex (zeroes t) ds then Zero else Pow2 (sum_list (map (exponent t) ds)))) \<and>
   at_type (calculateDefensiveMatchups [''ghost'']) ''normal'' = Some Zero \<and>
   at_type (calculateDefensiveMatchups [''steel'']) ''poison'' = Some Zero \<and>
   at_type (calculateDefensiveMatchups [''water'', ''grass'']) ''electric'' = Some one_n \<and>
   at_type (calculateDefensiveMatchups [''fire'', ''flying'']) ''rock'' = Some (Pow2 2)"
proof -
  have "at_type (calculateDefensiveMatchups [''ghost'']) ''normal'' = Some Zero"
    by code_simp
  moreover have "at_type (calculateDefensiveMatchups [''steel'']) ''poison'' = Some Zero"
    by code_simp
  moreover have "at_type (calculateDefensiveMatchups [''water'', ''grass'']) ''electric'' = Some one_n"
    by code_simp
  moreover have "at_type (calculateDefensiveMatchups [''fire'', ''flying'']) ''rock'' = Some (Pow2 2)"
    by code_simp
  ultimately show ?thesis
    by (simp add: calculateDefensiveMatchups_keyed multiplier_exact repr_def)
qed

theorem C5_compounding_witness:
  "\<not> throws [''water'', ''grass''] \<and>
   calculateDefensiveMatchups [''water'', ''grass''] =
     Inr (map (\<lambda>t. (t, fold (contribution t) [''water'', ''grass''] one_n)) allTypes) \<and>
   fold (contribution ''electric'') [''water'', ''grass''] one_n = js_times (js_times one_n two_n) half_n \<and>
   length [''water'', ''grass''] \<le> 1023 \<and>
   fold (contribution ''electric'') [''water'', ''grass''] one_n =
     (if list_ex (zeroes ''electric'') [''water'', ''grass''] then Zero
      else Pow2 (sum_list (map (exponent ''electric'') [''water'', ''grass''])))"
proof -
  have t: "\<not> throws [''water'', ''grass'']" by code_simp
  have f: "fold (contribution ''electric'') [''water'', ''grass''] one_n =
      js_times (js_times one_n two_n) half_n" by code_simp
  have l: "length [''water'', ''grass''] \<le> 1023" by simp
  from t f l C5_compounding [of "[''water'', ''grass'']" "''electric''"] show ?thesis by blast
qed

subsection \<open>C6\<close>

text \<open>
  Claim C6. \<^verbatim>\<open>addToTeam\<close> with a loaded Pokemon leaves the team as it is and shows a
  toast that reports the conflict when the team has six members already or holds a
  member with the same \<^verbatim>\<open>id\<close>; otherwise it appends the Pokemon. \<^verbatim>\<open>removeFromTeam\<close>
  removes the members with the given \<^verbatim>\<open>id\<close> and changes nothing when there is none.
  Every team reached from the empty team by clicks (add, remove, clear) has at most
  six members, with pairwise distinct \<^verbatim>\<open>id\<close>s.
\<close>

theorem C6_team_operations:
  "(6 \<le> length (team s) \<or> idnum p \<in> idnum ` set (team s) \<longrightarrow>
      team (addToTeam (Some p) s) = team s \<and>
      (toasts (addToTeam (Some p) s) = toasts s @ [''BOX FULL!''] \<or>
       toasts (addToTeam (Some p) s) = toasts s @ [''ALREADY CAUGHT!''])) \<and>
   (length (team s) < 6 \<and> idnum p \<notin> idnum ` set (team s) \<longrightarrow>
      team (addToTeam (Some p) s) = team s @ [p]) \<and>
   team (removeFromTeam i s) = filter (\<lambda>q. idnum q \<noteq> i) (team s) \<and>
   i \<notin> idnum ` set (team (removeFromTeam i s)) \<and>
   (i \<notin> idnum ` set (team s) \<longrightarrow> removeFromTeam i s = s) \<and>
   length (team (after_clicks cs)) \<le> 6 \<and>
   distinct (map idnum (team (after_clicks cs)))"
proof -
  have "team (removeFromTeam i s) = filter (\<lambda>q. idnum q \<noteq> i) (team s)"
    by (simp add: removeFromTeam_def)
  moreover from this have "i \<notin> idnum ` set (team (removeFromTeam i s))"
    by auto
  moreover have "length (team (after_clicks cs)) \<le> 6"
    "distinct (map idnum (team (after_clicks cs)))"
    using team_ok_after_clicks [of cs] by (simp_all add: team_ok_def)
  ultimately show ?thesis
    using addToTeam_rejects [of s p] addToTeam_appends(1) [of s p] removeFromTeam_absent [of i s]
    by blast
qed

theorem C6_team_operations_witness:
  "idnum \<lparr>idnum = 25, name = ''pikachu'', types = [''electric'']\<rparr> \<in> idnum ` set (team \<lparr>team = [\<lparr>idnum = 25, name = ''pikachu'', types = [''electric'']\<rparr>], toasts = []\<rparr>) \<and>
   team (addToTeam (Some \<lparr>idnum = 25, name = ''pikachu'', types = [''electric'']\<rparr>) \<lparr>team = [\<lparr>idnum = 25, name = ''pikachu'', types = [''electric'']\<rparr>], toasts = []\<rparr>) = team \<lparr>team = [\<lparr>idnum = 25, name = ''pikachu'', types = [''electric'']\<rparr>], toasts = []\<rparr> \<and>
   length (team \<lparr>team = [\<lparr>idnum = 25, name = ''pikachu'', types = [''electric'']\<rparr>], toasts = []\<rparr>) < 6 \<and> idnum \<lparr>idnum = 63, name = ''abra'', types = [''psychic'']\<rparr> \<notin> idnum ` set (team \<lparr>team = [\<lparr>idnum = 25, name = ''pikachu'', types = [''electric'']\<rparr>], toasts = []\<rparr>) \<and>
   team (addToTeam (Some \<lparr>idnum = 63, name = ''abra'', types = [''psychic'']\<rparr>) \<lparr>team = [\<lparr>idnum = 25, name = ''pikachu'', types = [''electric'']\<rparr>], toasts = []\<rparr>) = team \<lparr>team = [\<lparr>idnum = 25, name = ''pikachu'', types = [''electric'']\<rparr>], toasts = []\<rparr> @ [\<lparr>idnum = 63, name = ''abra'', types = [''psychic'']\<rparr>] \<and>
   7 \<notin> idnum ` set (team \<lparr>team = [\<lparr>idnum = 25, name = ''pikachu'', types = [''electric'']\<rparr>], toasts = []\<rparr>) \<and> removeFromTeam 7 \<lparr>team = [\<lparr>idnum = 25, name = ''pikachu'', types = [''electric'']\<rparr>], toasts = []\<rparr> = \<lparr>team = [\<lparr>idnum = 25, name = ''pikachu'', types = [''electric'']\<rparr>], toasts = []\<rparr> \<and>
   length (team (after_clicks [Add (Some \<lparr>idnum = 25, name = ''pikachu'', types = [''electric'']\<rparr>), Add (Some \<lparr>idnum = 25, name = ''pikachu'', types = [''electric'']\<rparr>), Remove 7, Add None])) \<le> 6"
proof -
  have a: "idnum \<lparr>idnum = 25, name = ''pikachu'', types = [''electric'']\<rparr> \<in> idnum ` set (team \<lparr>team = [\<lparr>idnum = 25, name = ''pikachu'', types = [''electric'']\<rparr>], toasts = []\<rparr>)" by simp
  have b: "length (team \<lparr>team = [\<lparr>idnum = 25, name = ''pikachu'', types = [''electric'']\<rparr>], toasts = []\<rparr>) < 6" "idnum \<lparr>idnum = 63, name = ''abra'', types = [''psychic'']\<rparr> \<notin> idnum ` set (team \<lparr>team = [\<lparr>idnum = 25, name = ''pikachu'', types = [''electric'']\<rparr>], toasts = []\<rparr>)" by simp_all
  have c: "7 \<notin> idnum ` set (team \<lparr>team = [\<lparr>idnum = 25, name = ''pikachu'', types = [''electric'']\<rparr>], toasts = []\<rparr>)" by simp
  from a c C6_team_operations [of "\<lparr>team = [\<lparr>idnum = 25, name = ''pikachu'', types = [''electric'']\<rparr>], toasts = []\<rparr>" "\<lparr>idnum = 25, name = ''pikachu'', types = [''electric'']\<rparr>" 7 "[Add (Some \<lparr>idnum = 25, name = ''pikachu'', types = [''electric'']\<rparr>), Add (Some \<lparr>idnum = 25, name = ''pikachu'', types = [''electric'']\<rparr>), Remove 7, Add None]"]
  have "team (addToTeam (Some \<lparr>idnum = 25, name = ''pikachu'', types = [''electric'']\<rparr>) \<lparr>team = [\<lparr>idnum = 25, name = ''pikachu'', types = [''electric'']\<rparr>], toasts = []\<rparr>) = team \<lparr>team = [\<lparr>idnum = 25, name = ''pikachu'', types = [''electric'']\<rparr>], toasts = []\<rparr>" "removeFromTeam 7 \<lparr>team = [\<lparr>idnum = 25, name = ''pikachu'', types = [''electric'']\<rparr>], toasts = []\<rparr> = \<lparr>team = [\<lparr>idnum = 25, name = ''pikachu'', types = [''electric'']\<rparr>], toasts = []\<rparr>"
    "length (team (after_clicks [Add (Some \<lparr>idnum = 25, name = ''pikachu'', types = [''electric'']\<rparr>), Add (Some \<lparr>idnum = 25, name = ''pikachu'', types = [''electric'']\<rparr>), Remove 7, Add None])) \<le> 6"
    by blast+
  moreover from b C6_team_operations [of "\<lparr>team = [\<lparr>idnum = 25, name = ''pikachu'', types = [''electric'']\<rparr>], toasts = []\<rparr>" "\<lparr>idnum = 63, name = ''abra'', types = [''psychic'']\<rparr>" 7 "[Add (Some \<lparr>idnum = 25, name = ''pikachu'', types = [''electric'']\<rparr>), Add (Some \<lparr>idnum = 25, name = ''pikachu'', types = [''electric'']\<rparr>), Remove 7, Add None]"]
  have "team (addToTeam (Some \<lparr>idnum = 63, name = ''abra'', types = [''psychic'']\<rparr>) \<lparr>team = [\<lparr>idnum = 25, name = ''pikachu'', types = [''electric'']\<rparr>], toasts = []\<rparr>) = team \<lparr>team = [\<lparr>idnum = 25, name = ''pikachu'', types = [''electric'']\<rparr>], toasts = []\<rparr> @ [\<lparr>idnum = 63, name = ''abra'', types = [''psychic'']\<rparr>]"
    by blast
  ultimately show ?thesis using a b c by blast
qed

subsection \<open>C7\<close>

text \<open>
  Claim C7 fails on the code. With an empty team and a current Pokemon whose type
  name is \<^verbatim>\<open>constructor\<close>, the component body calls \<^verbatim>\<open>calculateDefensiveMatchups\<close> on
  the current types, which throws (the defect of claim C8): no empty lists are
  produced. The comparison throws as well without a current Pokemon when a member of
  the team has such a type name, in the callback of \<^verbatim>\<open>teamDisadvantage\<close>.
\<close>

theorem C7_absent_subject_throws:
  "comparison None [\<lparr>idnum = 1, name = ''x'', types = [''constructor'']\<rparr>] = Inl TypeError \<and>
   comparison (Some \<lparr>idnum = 1, name = ''x'', types = [''constructor'']\<rparr>) [] = Inl TypeError"
  by code_simp

subsection \<open>C8\<close>

text \<open>
  Claim C8 fails on the code. \<^verbatim>\<open>"constructor"\<close> is outside the 18 types, yet
  \<^verbatim>\<open>TYPE_CHART["constructor"]\<close> is the function \<^verbatim>\<open>Object\<close>, inherited from
  \<^verbatim>\<open>Object.prototype\<close>: it passes the guard \<^verbatim>\<open>if (!data) return\<close>, and
  \<^verbatim>\<open>data.double.forEach\<close> throws a \<^verbatim>\<open>TypeError\<close>. Inserted into the empty list, the
  name changes the result from the all-ones mapping to an exception.
  \<^verbatim>\<open>getOffensiveStrengths\<close> is not affected.
\<close>

theorem C8_constructor_throws:
  "toLowerCase ''constructor'' \<notin> set allTypes \<and>
   calculateDefensiveMatchups [''constructor''] = Inl TypeError \<and>
   calculateDefensiveMatchups [] = Inr (map (\<lambda>t. (t, one_n)) allTypes) \<and>
   getOffensiveStrengths [''constructor''] = getOffensiveStrengths []"
  by code_simp

subsection \<open>C9\<close>

text \<open>
  Claim C9. For every falsy query, that is for the empty string and for the numbers
  zero and \<^verbatim>\<open>NaN\<close>, \<^verbatim>\<open>getPokemon\<close> requests what it requests for the id \<^verbatim>\<open>1\<close>, the URL
  ending in \<^verbatim>\<open>/pokemon/1\<close>. For every other string it requests the URL ending in the
  lower-cased string. It makes exactly one request, and it throws the error
  \<^verbatim>\<open>Pokemon not found\<close> exactly when that request is answered by a response that is
  not \<^verbatim>\<open>ok\<close>.
\<close>

theorem C9_getPokemon:
  "getPokemon fetch (Str []) = getPokemon fetch (Num ''1'') \<and>
   getPokemon fetch (Num ''0'') = getPokemon fetch (Num ''1'') \<and>
   getPokemon fetch (Num ''NaN'') = getPokemon fetch (Num ''1'') \<and>
   fst (getPokemon fetch (Num ''1'')) = [''https://pokeapi.co/api/v2/pokemon/1''] \<and>
   (s \<noteq> [] \<longrightarrow>
      fst (getPokemon fetch (Str s)) = [''https://pokeapi.co/api/v2/pokemon/'' @ toLowerCase s]) \<and>
   length (fst (getPokemon fetch q)) = 1 \<and>
   (snd (getPokemon fetch q) = Inl (Error ''Pokemon not found'') \<longleftrightarrow>
      (\<exists>r. fetch (hd (fst (getPokemon fetch q))) = Some r \<and> \<not> ok r))"
proof -
  have "getPokemon fetch (Str []) = getPokemon fetch (Num ''1'')"
    "getPokemon fetch (Num ''0'') = getPokemon fetch (Num ''1'')"
    "getPokemon fetch (Num ''NaN'') = getPokemon fetch (Num ''1'')"
    by (simp_all add: getPokemon_def or_one_def)
  moreover have "fst (getPokemon fetch (Num ''1'')) = [''https://pokeapi.co/api/v2/pokemon/1'']"
    by (simp add: getPokemon_requests or_one_def request_url_def)
  moreover have "s \<noteq> [] \<longrightarrow>
      fst (getPokemon fetch (Str s)) = [''https://pokeapi.co/api/v2/pokemon/'' @ toLowerCase s]"
    by (simp add: getPokemon_requests or_one_def request_url_def)
  moreover have "length (fst (getPokemon fetch q)) = 1"
    by (simp add: getPokemon_requests)
  moreover have "snd (getPokemon fetch q) = Inl (Error ''Pokemon not found'') \<longleftrightarrow>
      (\<exists>r. fetch (hd (fst (getPokemon fetch q))) = Some r \<and> \<not> ok r)"
    by (simp add: getPokemon_not_found getPokemon_requests)
  ultimately show ?thesis by blast
qed

theorem C9_getPokemon_witness:
  "''PikaChu'' \<noteq> [] \<and>
   fst (getPokemon (\<lambda>url. Some \<lparr>ok = False, json = None\<rparr>) (Str ''PikaChu'')) =
     [''https://pokeapi.co/api/v2/pokemon/'' @ toLowerCase ''PikaChu''] \<and>
   toLowerCase ''PikaChu'' = ''pikachu'' \<and>
   snd (getPokemon (\<lambda>url. Some \<lparr>ok = False, json = None\<rparr>) (Str ''PikaChu'')) =
     Inl (Error ''Pokemon not found'')"
proof -
  have n: "''PikaChu'' \<noteq> []" by simp
  have l: "toLowerCase ''PikaChu'' = ''pikachu''" by code_simp
  have "\<exists>r. (\<lambda>url. Some \<lparr>ok = False, json = None\<rparr>)
      (hd (fst (getPokemon (\<lambda>url. Some \<lparr>ok = False, json = None\<rparr>) (Str ''PikaChu'')))) = Some r \<and> \<not> ok r"
    by simp
  with n l C9_getPokemon [of "\<lambda>url. Some \<lparr>ok = False, json = None\<rparr>" "''PikaChu''" "Str ''PikaChu''"]
  show ?thesis by blast
qed

subsection \<open>C10\<close>

text \<open>
  Claim C10, as stated, fails in its last part: there is an input for which the
  result holds \<^verbatim>\<open>NaN\<close> for a canonical type. 1024 defending \<^verbatim>\<open>water\<close> entries overflow
  the multiplier of \<^verbatim>\<open>electric\<close> to \<^verbatim>\<open>Infinity\<close>, and \<^verbatim>\<open>ground\<close>, whose \<^verbatim>\<open>zero\<close> list has
  \<^verbatim>\<open>electric\<close>, multiplies it by \<^verbatim>\<open>0\<close>.
\<close>

theorem C10_number_counterexample:
  "at_type (calculateDefensiveMatchups (replicate 1024 ''water'' @ [''ground''])) ''electric'' =
   Some NaN"
  by (rule overflow_result [OF water_ground])

text \<open>
  Claim C10, amended. Every name in a \<^verbatim>\<open>double\<close>, \<^verbatim>\<open>half\<close> or \<^verbatim>\<open>zero\<close> list of the
  chart is one of its 18 keys. So \<^verbatim>\<open>calculateDefensiveMatchups\<close> multiplies only
  entries it initialised: whenever it returns, the keys of the result are exactly the
  keys of the chart, in their order (an update of a missing key would have appended
  that key), and it returns unless a defending type makes it throw. For an input of
  at most 1023 defending types every key holds a finite number.
\<close>

theorem C10_chart_closed:
  "list_all (\<lambda>(k, data). list_all (\<lambda>t. t \<in> set allTypes) (double data @ half data @ zero data))
     TYPE_CHART \<and>
   (\<not> throws ds \<longrightarrow> (\<exists>m. calculateDefensiveMatchups ds = Inr m)) \<and>
   (calculateDefensiveMatchups ds = Inr m \<longrightarrow>
      map fst m = allTypes \<and>
      (length ds \<le> 1023 \<longrightarrow>
         list_all (\<lambda>t. case map_of m t of None \<Rightarrow> False | Some v \<Rightarrow> is_multiplier v) allTypes))"
proof -
  have "\<not> throws ds \<longrightarrow> (\<exists>m. calculateDefensiveMatchups ds = Inr m)"
    by (simp add: calculateDefensiveMatchups_keyed)
  then show ?thesis
    using chart_lists_closed keys_calculate present_calculate by blast
qed

theorem C10_chart_closed_witness:
  "calculateDefensiveMatchups [''water'', ''Ground''] =
     Inr (map (\<lambda>t. (t, fold (contribution t) [''water'', ''Ground''] one_n)) allTypes) \<and>
   length [''water'', ''Ground''] \<le> 1023 \<and>
   map fst (map (\<lambda>t. (t, fold (contribution t) [''water'', ''Ground''] one_n)) allTypes) = allTypes \<and>
   list_all (\<lambda>t. case map_of (map (\<lambda>t. (t, fold (contribution t) [''water'', ''Ground''] one_n)) allTypes) t of
                 None \<Rightarrow> False | Some v \<Rightarrow> is_multiplier v) allTypes"
proof -
  have c: "calculateDefensiveMatchups [''water'', ''Ground''] =
     Inr (map (\<lambda>t. (t, fold (contribution t) [''water'', ''Ground''] one_n)) allTypes)"
    by code_simp
  have l: "length [''water'', ''Ground''] \<le> 1023" by simp
  from c l C10_chart_closed [of "[''water'', ''Ground'']"
      "map (\<lambda>t. (t, fold (contribution t) [''water'', ''Ground''] one_n)) allTypes"]
  show ?thesis by blast
qed

end
